theory Spec2Isabelle
  imports Complex_Main
begin

section \<open>Data model of stellar-option\<close>

text \<open>
  The package builds three Stellar transactions (setup, exercise, refund) that together
  form a European-style option. The embedding follows \<^verbatim>\<open>index.ts\<close> (class
  \<^verbatim>\<open>Option\<close>) and \<^verbatim>\<open>helpers.ts\<close>.

  A JavaScript \<^verbatim>\<open>number\<close> is modelled by \<^typ>\<open>real\<close> (rounding of IEEE doubles is
  not modelled); the ledger index, which the source only ever adds to the result of
  \<^verbatim>\<open>Math.floor\<close>, is an \<^typ>\<open>int\<close>.
\<close>

datatype Asset = Native | Credit string string

fun isNative :: "Asset \<Rightarrow> bool" where
  "isNative Native = True"
| "isNative (Credit code issuer) = False"

record AssetAmount =
  asset :: Asset
  amount :: real

record OptionParams =
  params_underlying :: AssetAmount
  params_premium :: AssetAmount
  params_exercise :: AssetAmount
  params_expiry :: real
  params_delay :: real

record NetworkOptions =
  network :: string
  baseReserve :: real
  fee :: real
  timeout :: real

text \<open>\<^verbatim>\<open>Partial<NetworkOptions>\<close>: every field may be absent.\<close>

record PartialNetworkOptions =
  opt_network :: "string option"
  opt_baseReserve :: "real option"
  opt_fee :: "real option"
  opt_timeout :: "real option"

text \<open>The private fields of class \<^verbatim>\<open>Option\<close>.\<close>

record StellarOption =
  buyer :: string
  seller :: string
  underlying :: AssetAmount
  exercise :: AssetAmount
  premium :: AssetAmount
  expiry :: real
  delay :: real
  networkOptions :: NetworkOptions

text \<open>
  \<^verbatim>\<open>StellarSdk.Networks.PUBLIC\<close> is a constant of the SDK; only its identity matters
  here.
\<close>

definition Networks_PUBLIC :: string where
  "Networks_PUBLIC = ''Public Global Stellar Network ; September 2015''"

definition networkDefaults :: NetworkOptions where
  "networkDefaults =
     \<lparr>network = Networks_PUBLIC, baseReserve = 0.5, fee = 1000, timeout = 1800\<rparr>"

text \<open>The object spread \<^verbatim>\<open>{...networkDefaults, ...networkOptions}\<close>.\<close>

definition spread :: "NetworkOptions \<Rightarrow> PartialNetworkOptions option \<Rightarrow> NetworkOptions" where
  "spread d po =
     (case po of
        None \<Rightarrow> d
      | Some p \<Rightarrow>
          \<lparr>network = (case opt_network p of None \<Rightarrow> network d | Some v \<Rightarrow> v),
           baseReserve = (case opt_baseReserve p of None \<Rightarrow> baseReserve d | Some v \<Rightarrow> v),
           fee = (case opt_fee p of None \<Rightarrow> fee d | Some v \<Rightarrow> v),
           timeout = (case opt_timeout p of None \<Rightarrow> timeout d | Some v \<Rightarrow> v)\<rparr>)"

text \<open>The constructor of \<^verbatim>\<open>Option\<close>: it stores its arguments and checks nothing.\<close>

definition Option_new ::
  "string \<Rightarrow> string \<Rightarrow> OptionParams \<Rightarrow> PartialNetworkOptions option \<Rightarrow> StellarOption" where
  "Option_new b s params netopts =
     \<lparr>buyer = b, seller = s,
      underlying = params_underlying params,
      exercise = params_exercise params,
      premium = params_premium params,
      expiry = params_expiry params,
      delay = params_delay params,
      networkOptions = spread networkDefaults netopts\<rparr>"

subsection \<open>Exact integers and their decimal strings\<close>

text \<open>
  Modelled from the spec: \<^verbatim>\<open>bignumber.js\<close> is a dependency whose code is not part
  of the sources. A \<^verbatim>\<open>BigNumber\<close> made from an integer is an arbitrary-precision
  integer, \<^verbatim>\<open>multipliedBy\<close> is the exact product and \<^verbatim>\<open>toString\<close> the decimal
  numeral (with a leading minus sign for a negative value).
\<close>

type_synonym BigNumber = int

definition digit_char :: "nat \<Rightarrow> char" where
  "digit_char d = ''0123456789'' ! d"

function decimal :: "nat \<Rightarrow> string" where
  "decimal n = (if n < 10 then [digit_char n] else decimal (n div 10) @ [digit_char (n mod 10)])"
  by pat_completeness auto
termination
  by (relation "measure (\<lambda>n. n)") auto

declare decimal.simps [simp del]

definition BigNumber_new :: "int \<Rightarrow> BigNumber" where
  "BigNumber_new v = v"

definition multipliedBy :: "BigNumber \<Rightarrow> int \<Rightarrow> BigNumber" where
  "multipliedBy x y = x * BigNumber_new y"

definition BigNumber_toString :: "BigNumber \<Rightarrow> string" where
  "BigNumber_toString x = (if x < 0 then CHR ''-'' # decimal (nat (- x)) else decimal (nat x))"

text \<open>Reading a decimal numeral back: the value a sequence-number string stands for.\<close>

definition digit_val :: "char \<Rightarrow> nat" where
  "digit_val c = of_char c - 48"

definition is_digit :: "char \<Rightarrow> bool" where
  "is_digit c = (48 \<le> (of_char c :: nat) \<and> (of_char c :: nat) \<le> 57)"

definition decimal_value :: "string \<Rightarrow> nat" where
  "decimal_value s = foldl (\<lambda>a c. 10 * a + digit_val c) 0 s"

definition string_value :: "string \<Rightarrow> int" where
  "string_value s =
     (case s of
        [] \<Rightarrow> 0
      | c # cs \<Rightarrow> if c = CHR ''-'' then - int (decimal_value cs) else int (decimal_value s))"

text \<open>\<^verbatim>\<open>ledgerToSequenceNumber\<close>: the ledger index moved into the high 32 bits.\<close>

definition ledgerToSequenceNumber :: "int \<Rightarrow> string" where
  "ledgerToSequenceNumber ledger =
     BigNumber_toString (multipliedBy (BigNumber_new ledger) 4294967296)"

subsection \<open>The SDK objects the code drives\<close>

text \<open>
  Modelled from the spec: \<^verbatim>\<open>stellar-sdk\<close> is a dependency whose code is not part of
  the sources. Following the specification's description of the ledger operation builder,
  an operation is the value of its parameters, \<^verbatim>\<open>addOperation\<close> appends one operation
  in call order, and a built transaction carries the account that seeded its builder,
  the builder's fee, time bounds and operations, and its signatures (the SDK derives the
  transaction's own sequence number and total fee from these).

  A string that the code obtains from a number with \<^verbatim>\<open>toString()\<close> is kept as that
  number; a string literal of the code is kept as its characters.
\<close>

datatype AmountString = NumberToString real | Literal string

datatype Operation =
    CreateAccount string string AmountString
  | BumpSequence string string
  | ChangeTrust string Asset AmountString
  | Payment string string Asset AmountString
  | SetOptionsSigner string string string
  | SetOptionsMasterWeight string int
  | AccountMerge string string

record Account =
  accountId :: string
  sequenceNumber :: string

record TimeBounds =
  minTime :: real
  maxTime :: real

record TransactionBuilder =
  b_source :: Account
  b_networkPassphrase :: string
  b_fee :: real
  b_timebounds :: "TimeBounds option"
  b_operations :: "Operation list"

record Transaction =
  tx_source :: Account
  tx_networkPassphrase :: string
  tx_baseFee :: real
  tx_timebounds :: "TimeBounds option"
  tx_operations :: "Operation list"
  tx_signatures :: "string list"

definition TransactionBuilder_new ::
  "Account \<Rightarrow> string \<Rightarrow> real \<Rightarrow> TimeBounds option \<Rightarrow> TransactionBuilder" where
  "TransactionBuilder_new account passphrase f tb =
     \<lparr>b_source = account, b_networkPassphrase = passphrase, b_fee = f,
      b_timebounds = tb, b_operations = []\<rparr>"

definition addOperation :: "TransactionBuilder \<Rightarrow> Operation \<Rightarrow> TransactionBuilder" where
  "addOperation b operation = b\<lparr>b_operations := b_operations b @ [operation]\<rparr>"

definition sign :: "Transaction \<Rightarrow> string \<Rightarrow> Transaction" where
  "sign tx keys = tx\<lparr>tx_signatures := tx_signatures tx @ [keys]\<rparr>"

text \<open>
  Modelled from the spec: the ledger accepts a transaction at a time inside its validity
  window, which includes the lower bound, excludes the upper bound, and has no upper
  bound when \<^verbatim>\<open>maxTime\<close> is 0.
\<close>

definition validAt :: "Transaction \<Rightarrow> real \<Rightarrow> bool" where
  "validAt tx t =
     (case tx_timebounds tx of
        None \<Rightarrow> True
      | Some tb \<Rightarrow> minTime tb \<le> t \<and> (maxTime tb = 0 \<or> t < maxTime tb))"

subsection \<open>What a call reads from outside\<close>

text \<open>
  The latest ledger as Horizon returns it; \<^verbatim>\<open>closed_at\<close> is held as the instant
  \<^verbatim>\<open>Date.parse\<close> gives for it, in milliseconds.
\<close>

record LedgerRecord =
  ledger_sequence :: int
  closed_at :: real

text \<open>
  The server answers the two queries of the code; \<^verbatim>\<open>None\<close> is a rejected promise.
\<close>

record Server =
  loadAccount :: "string \<Rightarrow> Account option"
  ledgers_call :: "LedgerRecord list option"

text \<open>
  The rest of the outside world of one call: the public key of the key pair that
  \<^verbatim>\<open>Keypair.random()\<close> returns, the clock \<^verbatim>\<open>Date.now()\<close>, the SDK's transaction hash,
  and the behaviour of the installed SDK where neither the sources nor the specification
  fix it:
  \<^item> \<open>sdk_accepts\<close>: whether the constructor of an operation accepts these parameters
    (it raises otherwise);
  \<^item> \<open>sdk_setTimeout\<close>: the time bounds that \<^verbatim>\<open>setTimeout\<close> leaves in a builder, from
    the clock, the builder's time bounds and the timeout (\<^verbatim>\<open>None\<close>: it raises);
  \<^item> \<open>sdk_builds\<close>: whether the SDK makes a transaction of a builder with this account,
    fee, time bounds and operations (\<^verbatim>\<open>build()\<close> raises otherwise).
\<close>

record World =
  Keypair_random :: string
  Date_now :: real
  tx_hash :: "Transaction \<Rightarrow> string"
  sdk_accepts :: "Operation \<Rightarrow> bool"
  sdk_setTimeout :: "real \<Rightarrow> TimeBounds option \<Rightarrow> real \<Rightarrow> TimeBounds option"
  sdk_builds :: "TransactionBuilder \<Rightarrow> bool"

datatype error = AccountQueryFailed | LedgerQueryFailed | NoLedgerRecord | SdkError

record OptionTransactions =
  tx_setup :: Transaction
  tx_exercise :: Transaction
  tx_refund :: Transaction

text \<open>An exception ends the call: the steps after a failed step do not run.\<close>

definition andThen :: "error + 'a \<Rightarrow> ('a \<Rightarrow> error + 'b) \<Rightarrow> error + 'b" where
  "andThen m f = (case m of Inl e \<Rightarrow> Inl e | Inr x \<Rightarrow> f x)"

text \<open>
  The SDK calls that may raise: \<^verbatim>\<open>StellarSdk.Operation.*\<close>, \<^verbatim>\<open>setTimeout\<close> and
  \<^verbatim>\<open>build\<close>.
\<close>

definition Operation_new :: "World \<Rightarrow> Operation \<Rightarrow> error + Operation" where
  "Operation_new world operation =
     (if sdk_accepts world operation then Inr operation else Inl SdkError)"

definition setTimeout :: "World \<Rightarrow> TransactionBuilder \<Rightarrow> real \<Rightarrow> error + TransactionBuilder" where
  "setTimeout world b t =
     (case sdk_setTimeout world (Date_now world) (b_timebounds b) t of
        None \<Rightarrow> Inl SdkError
      | Some tb \<Rightarrow> Inr (b\<lparr>b_timebounds := Some tb\<rparr>))"

definition build :: "World \<Rightarrow> TransactionBuilder \<Rightarrow> error + Transaction" where
  "build world b =
     (if sdk_builds world b
      then Inr \<lparr>tx_source = b_source b, tx_networkPassphrase = b_networkPassphrase b,
                tx_baseFee = b_fee b, tx_timebounds = b_timebounds b,
                tx_operations = b_operations b, tx_signatures = []\<rparr>
      else Inl SdkError)"

section \<open>helpers.ts\<close>

definition createAccount ::
  "World \<Rightarrow> TransactionBuilder \<Rightarrow> string \<Rightarrow> string \<Rightarrow> real \<Rightarrow> string option
     \<Rightarrow> error + TransactionBuilder" where
  "createAccount world builder source destination balance sequenceNumber' =
     andThen (Operation_new world (CreateAccount source destination (NumberToString balance)))
       (\<lambda>operation1.
          let b1 = addOperation builder operation1
          in case sequenceNumber' of
               None \<Rightarrow> Inr b1
             | Some s \<Rightarrow>
                 if s \<noteq> []
                 then andThen (Operation_new world (BumpSequence destination s))
                        (\<lambda>operation2. Inr (addOperation b1 operation2))
                 else Inr b1)"

definition addTrustline ::
  "World \<Rightarrow> TransactionBuilder \<Rightarrow> string \<Rightarrow> AssetAmount \<Rightarrow> error + TransactionBuilder" where
  "addTrustline world builder source am =
     (if \<not> isNative (asset am)
      then andThen
             (Operation_new world (ChangeTrust source (asset am) (NumberToString (amount am))))
             (\<lambda>operation. Inr (addOperation builder operation))
      else Inr builder)"

definition removeTrustline ::
  "World \<Rightarrow> TransactionBuilder \<Rightarrow> string \<Rightarrow> AssetAmount \<Rightarrow> error + TransactionBuilder" where
  "removeTrustline world builder source am =
     (if \<not> isNative (asset am)
      then andThen (Operation_new world (ChangeTrust source (asset am) (Literal ''0'')))
             (\<lambda>operation. Inr (addOperation builder operation))
      else Inr builder)"

definition sendPayment ::
  "World \<Rightarrow> TransactionBuilder \<Rightarrow> string \<Rightarrow> string \<Rightarrow> AssetAmount
     \<Rightarrow> error + TransactionBuilder" where
  "sendPayment world builder from to am =
     andThen (Operation_new world (Payment from to (asset am) (NumberToString (amount am))))
       (\<lambda>operation. Inr (addOperation builder operation))"

text \<open>
  \<^verbatim>\<open>lockEscrow\<close> calls the SDK's \<^verbatim>\<open>hash()\<close> on the two transactions, before it
  makes the operations.
\<close>

definition lockEscrow ::
  "World \<Rightarrow> TransactionBuilder \<Rightarrow> string \<Rightarrow> Transaction \<Rightarrow> Transaction
     \<Rightarrow> error + TransactionBuilder" where
  "lockEscrow world builder source buyerTx sellerTx =
     andThen (Operation_new world (SetOptionsSigner source (tx_hash world buyerTx) ''1''))
       (\<lambda>operation1.
     andThen (Operation_new world (SetOptionsSigner source (tx_hash world sellerTx) ''1''))
       (\<lambda>operation2.
     andThen (Operation_new world (SetOptionsMasterWeight source 0))
       (\<lambda>operation3.
          Inr (addOperation (addOperation (addOperation builder operation1) operation2)
                 operation3))))"

definition mergeAccount ::
  "World \<Rightarrow> TransactionBuilder \<Rightarrow> string \<Rightarrow> string \<Rightarrow> error + TransactionBuilder" where
  "mergeAccount world builder from to =
     andThen (Operation_new world (AccountMerge from to))
       (\<lambda>operation. Inr (addOperation builder operation))"

section \<open>The methods of class Option\<close>

definition calculateStartingBalance :: "StellarOption \<Rightarrow> real" where
  "calculateStartingBalance opt =
     (let isNonNative = \<not> isNative (asset (underlying opt));
          numSubentries = 4 + of_bool isNonNative;
          numOperations = 3 + of_bool isNonNative
      in baseReserve (networkOptions opt) * numSubentries +
           0.0000001 * fee (networkOptions opt) * numOperations)"

definition calculateEscrowSequenceNumber :: "Server \<Rightarrow> StellarOption \<Rightarrow> error + string" where
  "calculateEscrowSequenceNumber server opt =
     (case ledgers_call server of
        None \<Rightarrow> Inl LedgerQueryFailed
      | Some records \<Rightarrow>
          (case records of
             [] \<Rightarrow> Inl NoLedgerRecord
           | r # rest \<Rightarrow>
               (let now = closed_at r / 1000;
                    sequence = ledger_sequence r;
                    submitOffset = timeout (networkOptions opt);
                    expiryOffset = expiry opt - now;
                    midPointLedgerOffset = \<lfloor>(submitOffset + expiryOffset) / 10\<rfloor>
                in Inr (ledgerToSequenceNumber (sequence + midPointLedgerOffset)))))"

definition buildExerciseTransaction ::
  "World \<Rightarrow> StellarOption \<Rightarrow> string \<Rightarrow> string \<Rightarrow> error + Transaction" where
  "buildExerciseTransaction world opt escrow sequenceNumber' =
     (let account = \<lparr>accountId = escrow, sequenceNumber = sequenceNumber'\<rparr>;
          builder = TransactionBuilder_new account
                      (network (networkOptions opt)) (fee (networkOptions opt))
                      (Some \<lparr>minTime = expiry opt, maxTime = expiry opt + delay opt\<rparr>)
      in andThen (sendPayment world builder (buyer opt) (seller opt) (exercise opt))
           (\<lambda>builder.
         andThen (sendPayment world builder escrow (buyer opt) (underlying opt))
           (\<lambda>builder.
         andThen (removeTrustline world builder escrow (underlying opt))
           (\<lambda>builder.
         andThen (mergeAccount world builder escrow (seller opt))
           (\<lambda>builder. build world builder)))))"

definition buildRefundTransaction ::
  "World \<Rightarrow> StellarOption \<Rightarrow> string \<Rightarrow> string \<Rightarrow> error + Transaction" where
  "buildRefundTransaction world opt escrow sequenceNumber' =
     (let account = \<lparr>accountId = escrow, sequenceNumber = sequenceNumber'\<rparr>;
          builder = TransactionBuilder_new account
                      (network (networkOptions opt)) (fee (networkOptions opt))
                      (Some \<lparr>minTime = expiry opt + delay opt, maxTime = 0\<rparr>)
      in andThen (sendPayment world builder escrow (seller opt) (underlying opt))
           (\<lambda>builder.
         andThen (removeTrustline world builder escrow (underlying opt))
           (\<lambda>builder.
         andThen (mergeAccount world builder escrow (seller opt))
           (\<lambda>builder.
         andThen (setTimeout world builder 0)
           (\<lambda>builder. build world builder)))))"

text \<open>
  \<^verbatim>\<open>createTransactions\<close>: a rejected query or an exception of the SDK ends the call with
  its error. The call \<^verbatim>\<open>console.log(balance)\<close> prints the balance and changes nothing;
  it is left out.
\<close>

definition createTransactions ::
  "World \<Rightarrow> Server \<Rightarrow> StellarOption \<Rightarrow> error + OptionTransactions" where
  "createTransactions world server opt =
     (let escrow = Keypair_random world
      in case loadAccount server (seller opt) of
           None \<Rightarrow> Inl AccountQueryFailed
         | Some account \<Rightarrow>
             (let builder = TransactionBuilder_new account
                              (network (networkOptions opt)) (fee (networkOptions opt)) None
              in andThen (calculateEscrowSequenceNumber server opt)
                   (\<lambda>escrowSequence.
                 let balance = calculateStartingBalance opt
                 in andThen (createAccount world builder (seller opt) escrow balance
                               (Some escrowSequence))
                      (\<lambda>builder.
                    andThen (addTrustline world builder escrow (underlying opt))
                      (\<lambda>builder.
                    andThen (sendPayment world builder (seller opt) escrow (underlying opt))
                      (\<lambda>builder.
                    andThen (sendPayment world builder (buyer opt) (seller opt) (premium opt))
                      (\<lambda>builder.
                    andThen (buildRefundTransaction world opt escrow escrowSequence)
                      (\<lambda>sellerTx.
                    andThen (buildExerciseTransaction world opt escrow escrowSequence)
                      (\<lambda>buyerTx.
                    andThen (lockEscrow world builder escrow buyerTx sellerTx)
                      (\<lambda>builder.
                    andThen (setTimeout world builder (timeout (networkOptions opt)))
                      (\<lambda>builder.
                    andThen (build world builder)
                      (\<lambda>setupTx.
                         let setupTx = sign setupTx escrow
                         in Inr \<lparr>tx_setup = setupTx, tx_exercise = buyerTx,
                                  tx_refund = sellerTx\<rparr>))))))))))))"

section \<open>Reading operation lists\<close>

fun isBumpSequence :: "Operation \<Rightarrow> bool" where
  "isBumpSequence (BumpSequence source bumpTo) = True"
| "isBumpSequence operation = False"

fun isChangeTrust :: "Operation \<Rightarrow> bool" where
  "isChangeTrust (ChangeTrust source a limit) = True"
| "isChangeTrust operation = False"

text \<open>
  The operations that the specification lists for the three transactions, in its order,
  for the escrow account \<open>escrow\<close>, the escrow sequence number \<open>s\<close> and the two
  pre-authorized transactions; compared below with what \<^verbatim>\<open>createTransactions\<close> builds.
\<close>

definition refundOperations :: "StellarOption \<Rightarrow> string \<Rightarrow> Operation list" where
  "refundOperations opt escrow =
     [Payment escrow (seller opt) (asset (underlying opt))
        (NumberToString (amount (underlying opt)))] @
     (if isNative (asset (underlying opt)) then []
      else [ChangeTrust escrow (asset (underlying opt)) (Literal ''0'')]) @
     [AccountMerge escrow (seller opt)]"

definition exerciseOperations :: "StellarOption \<Rightarrow> string \<Rightarrow> Operation list" where
  "exerciseOperations opt escrow =
     [Payment (buyer opt) (seller opt) (asset (exercise opt))
        (NumberToString (amount (exercise opt))),
      Payment escrow (buyer opt) (asset (underlying opt))
        (NumberToString (amount (underlying opt)))] @
     (if isNative (asset (underlying opt)) then []
      else [ChangeTrust escrow (asset (underlying opt)) (Literal ''0'')]) @
     [AccountMerge escrow (seller opt)]"

definition setupOperations ::
  "World \<Rightarrow> StellarOption \<Rightarrow> string \<Rightarrow> Transaction \<Rightarrow> Transaction \<Rightarrow> Operation list" where
  "setupOperations world opt s buyerTx sellerTx =
     [CreateAccount (seller opt) (Keypair_random world)
        (NumberToString (calculateStartingBalance opt)),
      BumpSequence (Keypair_random world) s] @
     (if isNative (asset (underlying opt)) then []
      else [ChangeTrust (Keypair_random world) (asset (underlying opt))
              (NumberToString (amount (underlying opt)))]) @
     [Payment (seller opt) (Keypair_random world) (asset (underlying opt))
        (NumberToString (amount (underlying opt))),
      Payment (buyer opt) (seller opt) (asset (premium opt))
        (NumberToString (amount (premium opt))),
      SetOptionsSigner (Keypair_random world) (tx_hash world buyerTx) ''1'',
      SetOptionsSigner (Keypair_random world) (tx_hash world sellerTx) ''1'',
      SetOptionsMasterWeight (Keypair_random world) 0]"

section \<open>Inputs for worked examples\<close>

text \<open>
  The option of the package's readme (1 TEST for 200 XLM, premium 10 XLM), with the
  stated times of the specification's example: ledger 100 closed at second 1000, expiry
  1300.
\<close>

definition example_params :: OptionParams where
  "example_params =
     \<lparr>params_underlying = \<lparr>asset = Credit ''TEST'' ''GISSUER'', amount = 1\<rparr>,
      params_premium = \<lparr>asset = Native, amount = 10\<rparr>,
      params_exercise = \<lparr>asset = Native, amount = 200\<rparr>,
      params_expiry = 1300,
      params_delay = 3600\<rparr>"

definition example_option :: StellarOption where
  "example_option = Option_new ''GBUYER'' ''GSELLER'' example_params None"

definition native_params :: OptionParams where
  "native_params =
     \<lparr>params_underlying = \<lparr>asset = Native, amount = 1\<rparr>,
      params_premium = \<lparr>asset = Native, amount = 10\<rparr>,
      params_exercise = \<lparr>asset = Native, amount = 200\<rparr>,
      params_expiry = 1300,
      params_delay = 3600\<rparr>"

definition native_option :: StellarOption where
  "native_option = Option_new ''GBUYER'' ''GSELLER'' native_params None"

definition negative_delay_option :: StellarOption where
  "negative_delay_option =
     Option_new ''GBUYER'' ''GSELLER'' (example_params\<lparr>params_delay := - 10\<rparr>) None"

definition negative_premium_option :: StellarOption where
  "negative_premium_option =
     Option_new ''GBUYER'' ''GSELLER''
       (example_params\<lparr>params_premium := \<lparr>asset = Native, amount = - 10\<rparr>\<rparr>) None"

definition example_server :: Server where
  "example_server =
     \<lparr>loadAccount = (\<lambda>a. if a = ''GSELLER''
                          then Some \<lparr>accountId = ''GSELLER'', sequenceNumber = ''42''\<rparr>
                          else None),
      ledgers_call = Some [\<lparr>ledger_sequence = 100, closed_at = 1000000\<rparr>]\<rparr>"

definition offline_server :: Server where
  "offline_server = \<lparr>loadAccount = (\<lambda>a. None), ledgers_call = None\<rparr>"

text \<open>
  A stand-in for the installed SDK in the worked examples. Its constructors accept a
  positive payment amount and starting balance and a trust limit that is not negative.
  Its \<^verbatim>\<open>setTimeout\<close> refuses a negative timeout and an upper bound that is already
  set; a positive timeout bounds the validity by that many seconds from now and keeps the
  lower bound; the timeout 0 sets both bounds to 0. It builds a transaction when both
  time bounds are unsigned integers.
\<close>

fun example_accepts :: "Operation \<Rightarrow> bool" where
  "example_accepts (CreateAccount source destination (NumberToString v)) = (0 < v)"
| "example_accepts (Payment source destination a (NumberToString v)) = (0 < v)"
| "example_accepts (ChangeTrust source a (NumberToString v)) = (0 \<le> v)"
| "example_accepts operation = True"

definition example_setTimeout :: "real \<Rightarrow> TimeBounds option \<Rightarrow> real \<Rightarrow> TimeBounds option" where
  "example_setTimeout now tb t =
     (if (case tb of None \<Rightarrow> False | Some b \<Rightarrow> 0 < maxTime b) \<or> t < 0 then None
      else if 0 < t
        then Some \<lparr>minTime = (case tb of None \<Rightarrow> 0 | Some b \<Rightarrow> minTime b),
                   maxTime = of_int \<lfloor>now / 1000\<rfloor> + t\<rparr>
        else Some \<lparr>minTime = 0, maxTime = 0\<rparr>)"

definition example_builds :: "TransactionBuilder \<Rightarrow> bool" where
  "example_builds b =
     (case b_timebounds b of
        None \<Rightarrow> False
      | Some tb \<Rightarrow> 0 \<le> minTime tb \<and> of_int \<lfloor>minTime tb\<rfloor> = minTime tb \<and>
                   0 \<le> maxTime tb \<and> of_int \<lfloor>maxTime tb\<rfloor> = maxTime tb)"

definition example_world :: World where
  "example_world =
     \<lparr>Keypair_random = ''GESCROW'', Date_now = 1000500,
      tx_hash = (\<lambda>tx. replicate (length (tx_operations tx)) CHR ''#''),
      sdk_accepts = example_accepts, sdk_setTimeout = example_setTimeout,
      sdk_builds = example_builds\<rparr>"

definition later_world :: World where
  "later_world =
     \<lparr>Keypair_random = ''GOTHER'', Date_now = 1234567890,
      tx_hash = (\<lambda>tx. accountId (tx_source tx)),
      sdk_accepts = example_accepts, sdk_setTimeout = example_setTimeout,
      sdk_builds = example_builds\<rparr>"

section \<open>Decimal strings\<close>

lemma digit_cases:
  assumes "d < (10::nat)"
  shows "d = 0 \<or> d = 1 \<or> d = 2 \<or> d = 3 \<or> d = 4 \<or> d = 5 \<or> d = 6 \<or> d = 7 \<or> d = 8 \<or> d = 9"
  using assms by arith

lemma digit_val_digit_char: "d < 10 \<Longrightarrow> digit_val (digit_char d) = d"
  using digit_cases [of d] by (auto simp: digit_val_def digit_char_def)

lemma is_digit_digit_char: "d < 10 \<Longrightarrow> is_digit (digit_char d)"
  using digit_cases [of d] by (auto simp: is_digit_def digit_char_def)

lemma decimal_value_snoc: "decimal_value (s @ [c]) = 10 * decimal_value s + digit_val c"
  by (simp add: decimal_value_def)

lemma decimal_value_decimal: "decimal_value (decimal n) = n"
proof (induction n rule: decimal.induct)
  case (1 n)
  show ?case
  proof (cases "n < 10")
    case True
    then show ?thesis
      by (simp add: decimal.simps [of n] decimal_value_def digit_val_digit_char)
  next
    case False
    with 1 have "decimal_value (decimal (n div 10)) = n div 10" by simp
    with False show ?thesis
      by (simp add: decimal.simps [of n] decimal_value_snoc digit_val_digit_char)
  qed
qed

lemma decimal_digits: "list_all is_digit (decimal n)"
proof (induction n rule: decimal.induct)
  case (1 n)
  show ?case
  proof (cases "n < 10")
    case True
    then show ?thesis by (simp add: decimal.simps [of n] is_digit_digit_char)
  next
    case False
    with 1 have "list_all is_digit (decimal (n div 10))" by simp
    with False show ?thesis by (simp add: decimal.simps [of n] is_digit_digit_char)
  qed
qed

lemma decimal_not_Nil: "decimal n \<noteq> []"
  by (subst decimal.simps) simp

lemma hd_decimal_digit: "is_digit (hd (decimal n))"
  using decimal_digits [of n] decimal_not_Nil [of n] by (cases "decimal n") simp_all

lemma hd_decimal_not_minus: "hd (decimal n) \<noteq> CHR ''-''"
proof
  assume "hd (decimal n) = CHR ''-''"
  with hd_decimal_digit [of n] have "is_digit (CHR ''-'')" by simp
  then show False by (simp add: is_digit_def)
qed

lemma hd_decimal_zero: "hd (decimal n) = CHR ''0'' \<Longrightarrow> n = 0"
proof (induction n rule: decimal.induct)
  case (1 n)
  show ?case
  proof (cases "n < 10")
    case True
    with 1(2) have "digit_char n = CHR ''0''" by (simp add: decimal.simps [of n])
    then have "digit_val (digit_char n) = digit_val (CHR ''0'')" by simp
    with True show ?thesis by (simp add: digit_val_digit_char) (simp add: digit_val_def)
  next
    case False
    with 1(2) have "hd (decimal (n div 10)) = CHR ''0''"
      by (simp add: decimal.simps [of n] decimal_not_Nil)
    with 1(1) False have "n div 10 = 0" by simp
    with False show ?thesis by simp
  qed
qed

lemma string_value_toString: "string_value (BigNumber_toString x) = x"
proof (cases "x < 0")
  case True
  then show ?thesis
    by (simp add: string_value_def BigNumber_toString_def decimal_value_decimal)
next
  case False
  obtain c cs where d: "decimal (nat x) = c # cs"
    using decimal_not_Nil [of "nat x"] by (cases "decimal (nat x)") auto
  with hd_decimal_not_minus [of "nat x"] have "c \<noteq> CHR ''-''" by simp
  moreover have "decimal_value (c # cs) = nat x"
    using decimal_value_decimal [of "nat x"] d by simp
  ultimately show ?thesis
    using False d by (simp add: string_value_def BigNumber_toString_def)
qed

lemma BigNumber_toString_not_Nil: "BigNumber_toString x \<noteq> []"
  by (simp add: BigNumber_toString_def decimal_not_Nil)

lemma ledgerToSequenceNumber_not_Nil: "ledgerToSequenceNumber l \<noteq> []"
  by (simp add: ledgerToSequenceNumber_def BigNumber_toString_not_Nil)

lemma string_value_ledgerToSequenceNumber:
  "string_value (ledgerToSequenceNumber l) = l * 4294967296"
  by (simp add: ledgerToSequenceNumber_def string_value_toString multipliedBy_def
      BigNumber_new_def)

section \<open>The builder and the three transactions\<close>

lemma andThen_simps [simp]:
  "andThen (Inl e) f = Inl e"
  "andThen (Inr x) f = f x"
  by (simp_all add: andThen_def)

lemma andThen_Inr: "andThen m f = Inr y \<longleftrightarrow> (\<exists>x. m = Inr x \<and> f x = Inr y)"
  by (cases m) simp_all

lemma Operation_new_Inr:
  "Operation_new world operation = Inr x \<longleftrightarrow> sdk_accepts world operation \<and> x = operation"
  by (auto simp: Operation_new_def)

lemma calculateEscrowSequenceNumber_Inr:
  "calculateEscrowSequenceNumber server opt = Inr s \<Longrightarrow>
   \<exists>r rest. ledgers_call server = Some (r # rest) \<and>
     s = ledgerToSequenceNumber
           (ledger_sequence r +
            \<lfloor>(timeout (networkOptions opt) + (expiry opt - closed_at r / 1000)) / 10\<rfloor>)"
  by (auto simp: calculateEscrowSequenceNumber_def Let_def split: option.splits list.splits)

lemma calculateEscrowSequenceNumber_not_Nil:
  "calculateEscrowSequenceNumber server opt = Inr s \<Longrightarrow> s \<noteq> []"
  by (auto dest!: calculateEscrowSequenceNumber_Inr simp: ledgerToSequenceNumber_not_Nil)

lemma addOperation_fields [simp]:
  "b_operations (addOperation b x) = b_operations b @ [x]"
  "b_source (addOperation b x) = b_source b"
  "b_timebounds (addOperation b x) = b_timebounds b"
  by (simp_all add: addOperation_def)

lemma TransactionBuilder_new_fields [simp]:
  "b_operations (TransactionBuilder_new a p f tb) = []"
  "b_source (TransactionBuilder_new a p f tb) = a"
  "b_timebounds (TransactionBuilder_new a p f tb) = tb"
  by (simp_all add: TransactionBuilder_new_def)

lemma sign_fields [simp]:
  "tx_operations (sign tx k) = tx_operations tx"
  "tx_source (sign tx k) = tx_source tx"
  "tx_timebounds (sign tx k) = tx_timebounds tx"
  "tx_signatures (sign tx k) = tx_signatures tx @ [k]"
  by (simp_all add: sign_def)

lemma createAccount_Inr:
  assumes "createAccount world b src dst bal (Some s) = Inr b'" and "s \<noteq> []"
  shows "b_operations b' =
           b_operations b @ [CreateAccount src dst (NumberToString bal), BumpSequence dst s]"
    and "b_source b' = b_source b"
    and "b_timebounds b' = b_timebounds b"
    and "sdk_accepts world (CreateAccount src dst (NumberToString bal))"
    and "sdk_accepts world (BumpSequence dst s)"
  using assms by (auto simp: createAccount_def Let_def andThen_Inr Operation_new_Inr)

lemma addTrustline_Inr:
  assumes "addTrustline world b src am = Inr b'"
  shows "b_operations b' =
           b_operations b @
           (if isNative (asset am) then []
            else [ChangeTrust src (asset am) (NumberToString (amount am))])"
    and "b_source b' = b_source b"
    and "b_timebounds b' = b_timebounds b"
    and "\<not> isNative (asset am) \<Longrightarrow>
           sdk_accepts world (ChangeTrust src (asset am) (NumberToString (amount am)))"
  using assms
  by (auto simp: addTrustline_def andThen_Inr Operation_new_Inr split: if_splits)

lemma removeTrustline_Inr:
  assumes "removeTrustline world b src am = Inr b'"
  shows "b_operations b' =
           b_operations b @
           (if isNative (asset am) then [] else [ChangeTrust src (asset am) (Literal ''0'')])"
    and "b_source b' = b_source b"
    and "b_timebounds b' = b_timebounds b"
    and "\<not> isNative (asset am) \<Longrightarrow>
           sdk_accepts world (ChangeTrust src (asset am) (Literal ''0''))"
  using assms
  by (auto simp: removeTrustline_def andThen_Inr Operation_new_Inr split: if_splits)

lemma sendPayment_Inr:
  assumes "sendPayment world b from to am = Inr b'"
  shows "b_operations b' =
           b_operations b @ [Payment from to (asset am) (NumberToString (amount am))]"
    and "b_source b' = b_source b"
    and "b_timebounds b' = b_timebounds b"
    and "sdk_accepts world (Payment from to (asset am) (NumberToString (amount am)))"
  using assms by (auto simp: sendPayment_def andThen_Inr Operation_new_Inr)

lemma lockEscrow_Inr:
  assumes "lockEscrow world b src buyerTx sellerTx = Inr b'"
  shows "b_operations b' =
           b_operations b @
           [SetOptionsSigner src (tx_hash world buyerTx) ''1'',
            SetOptionsSigner src (tx_hash world sellerTx) ''1'',
            SetOptionsMasterWeight src 0]"
    and "b_source b' = b_source b"
    and "b_timebounds b' = b_timebounds b"
  using assms by (auto simp: lockEscrow_def andThen_Inr Operation_new_Inr)

lemma mergeAccount_Inr:
  assumes "mergeAccount world b from to = Inr b'"
  shows "b_operations b' = b_operations b @ [AccountMerge from to]"
    and "b_source b' = b_source b"
    and "b_timebounds b' = b_timebounds b"
  using assms by (auto simp: mergeAccount_def andThen_Inr Operation_new_Inr)

lemma setTimeout_Inr:
  assumes "setTimeout world b t = Inr b'"
  shows "b_operations b' = b_operations b"
    and "b_source b' = b_source b"
    and "\<exists>tb. sdk_setTimeout world (Date_now world) (b_timebounds b) t = Some tb \<and>
           b_timebounds b' = Some tb"
  using assms by (auto simp: setTimeout_def split: option.splits)

lemma build_Inr:
  assumes "build world b = Inr tx"
  shows "tx_operations tx = b_operations b"
    and "tx_source tx = b_source b"
    and "tx_timebounds tx = b_timebounds b"
    and "tx_signatures tx = []"
  using assms by (auto simp: build_def split: if_splits)

lemma buildExerciseTransaction_Inr:
  assumes "buildExerciseTransaction world opt escrow s = Inr tx"
  shows "tx_operations tx = exerciseOperations opt escrow"
    and "tx_source tx = \<lparr>accountId = escrow, sequenceNumber = s\<rparr>"
    and "tx_timebounds tx =
           Some \<lparr>minTime = expiry opt, maxTime = expiry opt + delay opt\<rparr>"
    and "sdk_accepts world (Payment (buyer opt) (seller opt) (asset (exercise opt))
           (NumberToString (amount (exercise opt))))"
proof -
  from assms obtain b1 b2 b3 b4 where
    1: "sendPayment world
          (TransactionBuilder_new \<lparr>accountId = escrow, sequenceNumber = s\<rparr>
             (network (networkOptions opt)) (fee (networkOptions opt))
             (Some \<lparr>minTime = expiry opt, maxTime = expiry opt + delay opt\<rparr>))
          (buyer opt) (seller opt) (exercise opt) = Inr b1" and
    2: "sendPayment world b1 escrow (buyer opt) (underlying opt) = Inr b2" and
    3: "removeTrustline world b2 escrow (underlying opt) = Inr b3" and
    4: "mergeAccount world b3 escrow (seller opt) = Inr b4" and
    5: "build world b4 = Inr tx"
    by (auto simp: buildExerciseTransaction_def Let_def andThen_Inr)
  show "tx_operations tx = exerciseOperations opt escrow"
    by (simp add: build_Inr(1) [OF 5] mergeAccount_Inr(1) [OF 4] removeTrustline_Inr(1) [OF 3]
        sendPayment_Inr(1) [OF 2] sendPayment_Inr(1) [OF 1] exerciseOperations_def)
  show "tx_source tx = \<lparr>accountId = escrow, sequenceNumber = s\<rparr>"
    by (simp add: build_Inr(2) [OF 5] mergeAccount_Inr(2) [OF 4] removeTrustline_Inr(2) [OF 3]
        sendPayment_Inr(2) [OF 2] sendPayment_Inr(2) [OF 1])
  show "tx_timebounds tx = Some \<lparr>minTime = expiry opt, maxTime = expiry opt + delay opt\<rparr>"
    by (simp add: build_Inr(3) [OF 5] mergeAccount_Inr(3) [OF 4] removeTrustline_Inr(3) [OF 3]
        sendPayment_Inr(3) [OF 2] sendPayment_Inr(3) [OF 1])
  show "sdk_accepts world (Payment (buyer opt) (seller opt) (asset (exercise opt))
           (NumberToString (amount (exercise opt))))"
    by (rule sendPayment_Inr(4) [OF 1])
qed

lemma buildRefundTransaction_Inr:
  assumes "buildRefundTransaction world opt escrow s = Inr tx"
  shows "tx_operations tx = refundOperations opt escrow"
    and "tx_source tx = \<lparr>accountId = escrow, sequenceNumber = s\<rparr>"
    and "\<exists>tb. sdk_setTimeout world (Date_now world)
                 (Some \<lparr>minTime = expiry opt + delay opt, maxTime = 0\<rparr>) 0 = Some tb \<and>
               tx_timebounds tx = Some tb"
proof -
  from assms obtain b1 b2 b3 b4 where
    1: "sendPayment world
          (TransactionBuilder_new \<lparr>accountId = escrow, sequenceNumber = s\<rparr>
             (network (networkOptions opt)) (fee (networkOptions opt))
             (Some \<lparr>minTime = expiry opt + delay opt, maxTime = 0\<rparr>))
          escrow (seller opt) (underlying opt) = Inr b1" and
    2: "removeTrustline world b1 escrow (underlying opt) = Inr b2" and
    3: "mergeAccount world b2 escrow (seller opt) = Inr b3" and
    4: "setTimeout world b3 0 = Inr b4" and
    5: "build world b4 = Inr tx"
    by (auto simp: buildRefundTransaction_def Let_def andThen_Inr)
  show "tx_operations tx = refundOperations opt escrow"
    by (simp add: build_Inr(1) [OF 5] setTimeout_Inr(1) [OF 4] mergeAccount_Inr(1) [OF 3]
        removeTrustline_Inr(1) [OF 2] sendPayment_Inr(1) [OF 1] refundOperations_def)
  show "tx_source tx = \<lparr>accountId = escrow, sequenceNumber = s\<rparr>"
    by (simp add: build_Inr(2) [OF 5] setTimeout_Inr(2) [OF 4] mergeAccount_Inr(2) [OF 3]
        removeTrustline_Inr(2) [OF 2] sendPayment_Inr(2) [OF 1])
  have "b_timebounds b3 = Some \<lparr>minTime = expiry opt + delay opt, maxTime = 0\<rparr>"
    by (simp add: mergeAccount_Inr(3) [OF 3] removeTrustline_Inr(3) [OF 2]
        sendPayment_Inr(3) [OF 1])
  with setTimeout_Inr(3) [OF 4] build_Inr(3) [OF 5]
  show "\<exists>tb. sdk_setTimeout world (Date_now world)
                 (Some \<lparr>minTime = expiry opt + delay opt, maxTime = 0\<rparr>) 0 = Some tb \<and>
               tx_timebounds tx = Some tb"
    by simp
qed

lemma createTransactions_Inr:
  assumes "createTransactions world server opt = Inr txs"
  shows "\<exists>account s. loadAccount server (seller opt) = Some account \<and>
     calculateEscrowSequenceNumber server opt = Inr s \<and>
     buildExerciseTransaction world opt (Keypair_random world) s = Inr (tx_exercise txs) \<and>
     buildRefundTransaction world opt (Keypair_random world) s = Inr (tx_refund txs) \<and>
     tx_source (tx_setup txs) = account \<and>
     tx_signatures (tx_setup txs) = [Keypair_random world] \<and>
     tx_timebounds (tx_setup txs) \<noteq> None \<and>
     tx_operations (tx_setup txs) =
       setupOperations world opt s (tx_exercise txs) (tx_refund txs) \<and>
     sdk_accepts world (Payment (seller opt) (Keypair_random world) (asset (underlying opt))
       (NumberToString (amount (underlying opt)))) \<and>
     sdk_accepts world (Payment (buyer opt) (seller opt) (asset (premium opt))
       (NumberToString (amount (premium opt))))"
proof -
  from assms obtain account where a: "loadAccount server (seller opt) = Some account"
    by (auto simp: createTransactions_def Let_def split: option.splits)
  from assms a obtain s b1 b2 b3 b4 sellerTx buyerTx b5 b6 setupTx where
    s: "calculateEscrowSequenceNumber server opt = Inr s" and
    1: "createAccount world
          (TransactionBuilder_new account (network (networkOptions opt))
             (fee (networkOptions opt)) None)
          (seller opt) (Keypair_random world) (calculateStartingBalance opt) (Some s) = Inr b1" and
    2: "addTrustline world b1 (Keypair_random world) (underlying opt) = Inr b2" and
    3: "sendPayment world b2 (seller opt) (Keypair_random world) (underlying opt) = Inr b3" and
    4: "sendPayment world b3 (buyer opt) (seller opt) (premium opt) = Inr b4" and
    r: "buildRefundTransaction world opt (Keypair_random world) s = Inr sellerTx" and
    e: "buildExerciseTransaction world opt (Keypair_random world) s = Inr buyerTx" and
    5: "lockEscrow world b4 (Keypair_random world) buyerTx sellerTx = Inr b5" and
    6: "setTimeout world b5 (timeout (networkOptions opt)) = Inr b6" and
    7: "build world b6 = Inr setupTx" and
    txs: "txs = \<lparr>tx_setup = sign setupTx (Keypair_random world), tx_exercise = buyerTx,
                 tx_refund = sellerTx\<rparr>"
    by (auto simp: createTransactions_def Let_def andThen_Inr)
  have ne: "s \<noteq> []" using s by (rule calculateEscrowSequenceNumber_not_Nil)
  have ops: "tx_operations (tx_setup txs) =
       setupOperations world opt s (tx_exercise txs) (tx_refund txs)"
    by (simp add: txs build_Inr(1) [OF 7] setTimeout_Inr(1) [OF 6] lockEscrow_Inr(1) [OF 5]
        sendPayment_Inr(1) [OF 4] sendPayment_Inr(1) [OF 3] addTrustline_Inr(1) [OF 2]
        createAccount_Inr(1) [OF 1 ne] setupOperations_def)
  have src: "tx_source (tx_setup txs) = account"
    by (simp add: txs build_Inr(2) [OF 7] setTimeout_Inr(2) [OF 6] lockEscrow_Inr(2) [OF 5]
        sendPayment_Inr(2) [OF 4] sendPayment_Inr(2) [OF 3] addTrustline_Inr(2) [OF 2]
        createAccount_Inr(2) [OF 1 ne])
  have sig: "tx_signatures (tx_setup txs) = [Keypair_random world]"
    by (simp add: txs build_Inr(4) [OF 7])
  have tb: "tx_timebounds (tx_setup txs) \<noteq> None"
    using setTimeout_Inr(3) [OF 6] by (auto simp: txs build_Inr(3) [OF 7])
  have ex: "tx_exercise txs = buyerTx" and re: "tx_refund txs = sellerTx"
    by (simp_all add: txs)
  from a s e r ops src sig tb ex re sendPayment_Inr(4) [OF 3] sendPayment_Inr(4) [OF 4]
  show ?thesis by simp
qed

lemma createTransactions_query_failed:
  "loadAccount server (seller opt) = None \<or> ledgers_call server = None \<or>
   ledgers_call server = Some [] \<Longrightarrow> isl (createTransactions world server opt)"
  by (auto simp: createTransactions_def calculateEscrowSequenceNumber_def Let_def
      split: option.splits)

section \<open>The worked examples\<close>

lemma example_option_fields:
  "buyer example_option = ''GBUYER''"
  "seller example_option = ''GSELLER''"
  "underlying example_option = \<lparr>asset = Credit ''TEST'' ''GISSUER'', amount = 1\<rparr>"
  "exercise example_option = \<lparr>asset = Native, amount = 200\<rparr>"
  "premium example_option = \<lparr>asset = Native, amount = 10\<rparr>"
  "expiry example_option = 1300"
  "delay example_option = 3600"
  "networkOptions example_option = networkDefaults"
  by (simp_all add: example_option_def Option_new_def example_params_def spread_def)

lemma native_option_fields:
  "buyer native_option = ''GBUYER''"
  "seller native_option = ''GSELLER''"
  "underlying native_option = \<lparr>asset = Native, amount = 1\<rparr>"
  "exercise native_option = \<lparr>asset = Native, amount = 200\<rparr>"
  "premium native_option = \<lparr>asset = Native, amount = 10\<rparr>"
  "expiry native_option = 1300"
  "delay native_option = 3600"
  "networkOptions native_option = networkDefaults"
  by (simp_all add: native_option_def Option_new_def native_params_def spread_def)

lemma negative_delay_option_fields:
  "buyer negative_delay_option = ''GBUYER''"
  "seller negative_delay_option = ''GSELLER''"
  "underlying negative_delay_option = \<lparr>asset = Credit ''TEST'' ''GISSUER'', amount = 1\<rparr>"
  "exercise negative_delay_option = \<lparr>asset = Native, amount = 200\<rparr>"
  "premium negative_delay_option = \<lparr>asset = Native, amount = 10\<rparr>"
  "expiry negative_delay_option = 1300"
  "delay negative_delay_option = - 10"
  "networkOptions negative_delay_option = networkDefaults"
  by (simp_all add: negative_delay_option_def Option_new_def example_params_def spread_def)

lemma negative_premium_option_fields:
  "seller negative_premium_option = ''GSELLER''"
  "premium negative_premium_option = \<lparr>asset = Native, amount = - 10\<rparr>"
  by (simp_all add: negative_premium_option_def Option_new_def example_params_def)

lemma example_server_fields:
  "loadAccount example_server ''GSELLER'' = Some \<lparr>accountId = ''GSELLER'', sequenceNumber = ''42''\<rparr>"
  "ledgers_call example_server = Some [\<lparr>ledger_sequence = 100, closed_at = 1000000\<rparr>]"
  by (simp_all add: example_server_def)

lemma example_world_fields:
  "Keypair_random example_world = ''GESCROW''"
  "Date_now example_world = 1000500"
  "tx_hash example_world tx = replicate (length (tx_operations tx)) CHR ''#''"
  "sdk_accepts example_world = example_accepts"
  "sdk_setTimeout example_world = example_setTimeout"
  "sdk_builds example_world = example_builds"
  by (simp_all add: example_world_def)

lemma later_world_fields:
  "Keypair_random later_world = ''GOTHER''"
  "Date_now later_world = 1234567890"
  "tx_hash later_world tx = accountId (tx_source tx)"
  "sdk_accepts later_world = example_accepts"
  "sdk_setTimeout later_world = example_setTimeout"
  "sdk_builds later_world = example_builds"
  by (simp_all add: later_world_def)

lemma ledgerToSequenceNumber_310: "ledgerToSequenceNumber 310 = ''1331439861760''"
  by (simp add: ledgerToSequenceNumber_def BigNumber_toString_def multipliedBy_def
      BigNumber_new_def decimal.simps digit_char_def)

lemma ledgerToSequenceNumber_max:
  "ledgerToSequenceNumber 4294967296 = ''18446744073709551616''"
  by (simp add: ledgerToSequenceNumber_def BigNumber_toString_def multipliedBy_def
      BigNumber_new_def decimal.simps digit_char_def)

lemma example_sequence:
  "calculateEscrowSequenceNumber example_server example_option = Inr ''1331439861760''"
  "calculateEscrowSequenceNumber example_server native_option = Inr ''1331439861760''"
  "calculateEscrowSequenceNumber example_server negative_delay_option = Inr ''1331439861760''"
  by (simp_all add: calculateEscrowSequenceNumber_def Let_def example_server_fields
      example_option_fields native_option_fields negative_delay_option_fields
      networkDefaults_def ledgerToSequenceNumber_310)

lemma example_balance:
  "calculateStartingBalance example_option = 2.5004"
  "calculateStartingBalance native_option = 2.0003"
  "calculateStartingBalance negative_delay_option = 2.5004"
  by (simp_all add: calculateStartingBalance_def Let_def example_option_fields
      native_option_fields negative_delay_option_fields networkDefaults_def)

lemmas run_defs =
  createTransactions_def buildExerciseTransaction_def buildRefundTransaction_def
  createAccount_def addTrustline_def removeTrustline_def sendPayment_def lockEscrow_def
  mergeAccount_def setTimeout_def build_def Operation_new_def Let_def
  example_setTimeout_def example_builds_def example_server_fields example_sequence
  example_balance networkDefaults_def

lemma example_succeeds:
  "createTransactions example_world example_server example_option =
     Inr (projr (createTransactions example_world example_server example_option))"
proof -
  have "\<not> isl (createTransactions example_world example_server example_option)"
    by (simp add: run_defs example_world_fields example_option_fields)
  then show ?thesis by simp
qed

lemma native_succeeds:
  "createTransactions later_world example_server native_option =
     Inr (projr (createTransactions later_world example_server native_option))"
proof -
  have "\<not> isl (createTransactions later_world example_server native_option)"
    by (simp add: run_defs later_world_fields native_option_fields)
  then show ?thesis by simp
qed

lemma negative_delay_succeeds:
  "\<not> isl (createTransactions example_world example_server negative_delay_option)"
  by (simp add: run_defs example_world_fields negative_delay_option_fields)

section \<open>The properties of the specification\<close>

text \<open>
  Claim C1. In every build the setup transaction holds exactly one bump-sequence
  operation, on the escrow account, and its \<^verbatim>\<open>bumpTo\<close> is the predicted escrow
  sequence number; the accounts that seed the exercise and the refund transaction are
  the escrow account at that same sequence number. (That the ledger then accepts the
  next sequence number of the escrow account is the ledger's part.)
\<close>

theorem escrow_sequence_shared:
  assumes "createTransactions world server opt = Inr txs"
  shows "calculateEscrowSequenceNumber server opt =
           Inr (sequenceNumber (tx_source (tx_exercise txs))) \<and>
         filter isBumpSequence (tx_operations (tx_setup txs)) =
           [BumpSequence (Keypair_random world) (sequenceNumber (tx_source (tx_exercise txs)))] \<and>
         sequenceNumber (tx_source (tx_refund txs)) =
           sequenceNumber (tx_source (tx_exercise txs)) \<and>
         accountId (tx_source (tx_exercise txs)) = Keypair_random world \<and>
         accountId (tx_source (tx_refund txs)) = Keypair_random world"
proof -
  from createTransactions_Inr [OF assms] obtain s where
    s: "calculateEscrowSequenceNumber server opt = Inr s" and
    e: "buildExerciseTransaction world opt (Keypair_random world) s = Inr (tx_exercise txs)" and
    r: "buildRefundTransaction world opt (Keypair_random world) s = Inr (tx_refund txs)" and
    o: "tx_operations (tx_setup txs) =
          setupOperations world opt s (tx_exercise txs) (tx_refund txs)"
    by blast
  have "filter isBumpSequence (setupOperations world opt s (tx_exercise txs) (tx_refund txs)) =
          [BumpSequence (Keypair_random world) s]"
    by (simp add: setupOperations_def)
  with s o show ?thesis
    by (simp add: buildExerciseTransaction_Inr(2) [OF e] buildRefundTransaction_Inr(2) [OF r])
qed

theorem escrow_sequence_shared_witness:
  "filter isBumpSequence
     (tx_operations (tx_setup (projr (createTransactions example_world example_server
        example_option)))) = [BumpSequence ''GESCROW'' ''1331439861760''] \<and>
   sequenceNumber (tx_source (tx_exercise (projr (createTransactions example_world
     example_server example_option)))) = ''1331439861760'' \<and>
   sequenceNumber (tx_source (tx_refund (projr (createTransactions example_world
     example_server example_option)))) = ''1331439861760''"
  using escrow_sequence_shared [OF example_succeeds]
  by (simp add: example_sequence example_world_fields)

text \<open>
  Claim C2 fails on the code when the \<^verbatim>\<open>setTimeout\<close> of the installed SDK, at the
  timeout 0 and with no upper bound set yet, sets both time bounds to 0: \<^verbatim>\<open>buildRefundTransaction\<close> gives the builder the
  lower bound \<^verbatim>\<open>expiry + delay\<close> and then calls \<^verbatim>\<open>setTimeout(0)\<close>, which drops it. In
  every build the refund transaction is then valid at any time from 0 on, and, for a
  positive \<^verbatim>\<open>delay\<close>, at \<^verbatim>\<open>expiry\<close> together with the exercise transaction.
\<close>

theorem refund_lower_bound_lost:
  assumes "createTransactions world server opt = Inr txs"
    and "\<And>now tb. maxTime tb = 0 \<Longrightarrow>
           sdk_setTimeout world now (Some tb) 0 = Some \<lparr>minTime = 0, maxTime = 0\<rparr>"
  shows "tx_timebounds (tx_exercise txs) =
           Some \<lparr>minTime = expiry opt, maxTime = expiry opt + delay opt\<rparr> \<and>
         tx_timebounds (tx_refund txs) = Some \<lparr>minTime = 0, maxTime = 0\<rparr> \<and>
         (0 \<le> t \<longrightarrow> validAt (tx_refund txs) t) \<and>
         (0 \<le> expiry opt \<and> 0 < delay opt \<longrightarrow>
            validAt (tx_exercise txs) (expiry opt) \<and> validAt (tx_refund txs) (expiry opt))"
proof -
  from createTransactions_Inr [OF assms(1)] obtain s where
    e: "buildExerciseTransaction world opt (Keypair_random world) s = Inr (tx_exercise txs)" and
    r: "buildRefundTransaction world opt (Keypair_random world) s = Inr (tx_refund txs)"
    by blast
  have ex: "tx_timebounds (tx_exercise txs) =
           Some \<lparr>minTime = expiry opt, maxTime = expiry opt + delay opt\<rparr>"
    by (rule buildExerciseTransaction_Inr(3) [OF e])
  from buildRefundTransaction_Inr(3) [OF r] assms(2)
  have re: "tx_timebounds (tx_refund txs) = Some \<lparr>minTime = 0, maxTime = 0\<rparr>"
    by auto
  from ex re show ?thesis by (simp add: validAt_def)
qed

theorem refund_lower_bound_lost_witness:
  "tx_timebounds (tx_refund (projr (createTransactions example_world example_server
      example_option))) = Some \<lparr>minTime = 0, maxTime = 0\<rparr> \<and>
   validAt (tx_exercise (projr (createTransactions example_world example_server
      example_option))) 1300 \<and>
   validAt (tx_refund (projr (createTransactions example_world example_server
      example_option))) 1300"
proof -
  have "sdk_setTimeout example_world now (Some tb) 0 = Some \<lparr>minTime = 0, maxTime = 0\<rparr>"
    if "maxTime tb = 0" for now tb
    using that by (simp add: example_world_fields example_setTimeout_def)
  from refund_lower_bound_lost [OF example_succeeds this, of 1300]
  show ?thesis by (simp add: example_option_fields)
qed

text \<open>
  Claim C3. With the latest ledger of height \<open>H\<close> closed at \<open>T\<close> seconds, the predicted
  escrow sequence number is the decimal numeral of
  \<open>(H + \<lfloor>(S + (E - T)) / 10\<rfloor>) * 2 ^ 32\<close>, for the submit timeout \<open>S\<close> and the expiry
  \<open>E\<close>; for \<open>H = 100\<close>, \<open>T = 1000\<close>, \<open>S = 1800\<close>, \<open>E = 1300\<close> it is 1331439861760.
\<close>

theorem escrow_sequence_formula:
  assumes "ledgers_call server = Some (r # rest)"
  shows "\<exists>s. calculateEscrowSequenceNumber server opt = Inr s \<and>
           string_value s =
             (ledger_sequence r +
              \<lfloor>(timeout (networkOptions opt) + (expiry opt - closed_at r / 1000)) / 10\<rfloor>) *
             2 ^ 32 \<and>
           (ledger_sequence r = 100 \<and> closed_at r / 1000 = 1000 \<and>
            timeout (networkOptions opt) = 1800 \<and> expiry opt = 1300 \<longrightarrow>
              s = ''1331439861760'')"
proof -
  let ?l = "ledger_sequence r +
              \<lfloor>(timeout (networkOptions opt) + (expiry opt - closed_at r / 1000)) / 10\<rfloor>"
  have 1: "calculateEscrowSequenceNumber server opt = Inr (ledgerToSequenceNumber ?l)"
    using assms by (simp add: calculateEscrowSequenceNumber_def Let_def)
  have 2: "string_value (ledgerToSequenceNumber ?l) = ?l * 2 ^ 32"
    by (simp add: string_value_ledgerToSequenceNumber)
  have 3: "ledger_sequence r = 100 \<and> closed_at r / 1000 = 1000 \<and>
            timeout (networkOptions opt) = 1800 \<and> expiry opt = 1300 \<longrightarrow>
              ledgerToSequenceNumber ?l = ''1331439861760''"
  proof
    assume h: "ledger_sequence r = 100 \<and> closed_at r / 1000 = 1000 \<and>
            timeout (networkOptions opt) = 1800 \<and> expiry opt = 1300"
    then have "?l = 310" by simp
    then show "ledgerToSequenceNumber ?l = ''1331439861760''"
      by (simp only: ledgerToSequenceNumber_310)
  qed
  from 1 2 3 show ?thesis by blast
qed

theorem escrow_sequence_formula_witness:
  "calculateEscrowSequenceNumber example_server example_option = Inr ''1331439861760'' \<and>
   string_value ''1331439861760'' = (100 + \<lfloor>(1800 + (1300 - 1000)) / (10::real)\<rfloor>) * 2 ^ 32"
  using escrow_sequence_formula [of example_server
      "\<lparr>ledger_sequence = 100, closed_at = 1000000\<rparr>" "[]" example_option]
  by (auto simp: example_server_fields example_option_fields networkDefaults_def)

text \<open>
  Claim C4. The operations of setup are, in this order: create the escrow account with
  the computed starting balance; bump its sequence to the predicted number; change-trust
  for the underlying asset exactly when it is not native; the payment of the underlying
  from seller to escrow; the payment of the premium from buyer to seller; the hash of
  exercise as pre-authorized signer of weight 1; the hash of refund likewise; master
  weight 0.
\<close>

theorem setup_operations_order:
  assumes "createTransactions world server opt = Inr txs"
  shows "tx_operations (tx_setup txs) =
     [CreateAccount (seller opt) (Keypair_random world)
        (NumberToString (calculateStartingBalance opt)),
      BumpSequence (Keypair_random world) (sequenceNumber (tx_source (tx_exercise txs)))] @
     (if isNative (asset (underlying opt)) then []
      else [ChangeTrust (Keypair_random world) (asset (underlying opt))
              (NumberToString (amount (underlying opt)))]) @
     [Payment (seller opt) (Keypair_random world) (asset (underlying opt))
        (NumberToString (amount (underlying opt))),
      Payment (buyer opt) (seller opt) (asset (premium opt))
        (NumberToString (amount (premium opt))),
      SetOptionsSigner (Keypair_random world) (tx_hash world (tx_exercise txs)) ''1'',
      SetOptionsSigner (Keypair_random world) (tx_hash world (tx_refund txs)) ''1'',
      SetOptionsMasterWeight (Keypair_random world) 0]"
proof -
  from createTransactions_Inr [OF assms] obtain s where
    e: "buildExerciseTransaction world opt (Keypair_random world) s = Inr (tx_exercise txs)" and
    o: "tx_operations (tx_setup txs) =
          setupOperations world opt s (tx_exercise txs) (tx_refund txs)"
    by blast
  show ?thesis
    by (simp add: o setupOperations_def buildExerciseTransaction_Inr(2) [OF e])
qed

theorem setup_operations_order_witness:
  "tx_operations (tx_setup (projr (createTransactions example_world example_server
      example_option))) =
     [CreateAccount ''GSELLER'' ''GESCROW'' (NumberToString 2.5004),
      BumpSequence ''GESCROW'' ''1331439861760'',
      ChangeTrust ''GESCROW'' (Credit ''TEST'' ''GISSUER'') (NumberToString 1),
      Payment ''GSELLER'' ''GESCROW'' (Credit ''TEST'' ''GISSUER'') (NumberToString 1),
      Payment ''GBUYER'' ''GSELLER'' Native (NumberToString 10),
      SetOptionsSigner ''GESCROW'' ''####'' ''1'',
      SetOptionsSigner ''GESCROW'' ''###'' ''1'',
      SetOptionsMasterWeight ''GESCROW'' 0]"
proof -
  from createTransactions_Inr [OF example_succeeds] obtain s where
    s: "calculateEscrowSequenceNumber example_server example_option = Inr s" and
    e: "buildExerciseTransaction example_world example_option (Keypair_random example_world) s =
          Inr (tx_exercise (projr (createTransactions example_world example_server
            example_option)))" and
    r: "buildRefundTransaction example_world example_option (Keypair_random example_world) s =
          Inr (tx_refund (projr (createTransactions example_world example_server
            example_option)))"
    by blast
  show ?thesis
    using setup_operations_order [OF example_succeeds] s
    by (simp add: buildExerciseTransaction_Inr(1,2) [OF e] buildRefundTransaction_Inr(1) [OF r]
        exerciseOperations_def refundOperations_def example_sequence
        example_world_fields example_option_fields example_balance)
qed

text \<open>
  Claim C5. The starting balance is
  \<open>baseReserve * (4 + e) + 0.0000001 * fee * (3 + e)\<close> with \<open>e = 1\<close> for a non-native
  underlying asset and \<open>e = 0\<close> for the native one; with the default network options and
  a native underlying it is \<open>0.5 * 4 + 0.0000001 * 1000 * 3\<close>.
\<close>

theorem starting_balance_formula:
  "calculateStartingBalance opt =
     baseReserve (networkOptions opt) * (4 + (if isNative (asset (underlying opt)) then 0 else 1)) +
     0.0000001 * fee (networkOptions opt) *
       (3 + (if isNative (asset (underlying opt)) then 0 else 1)) \<and>
   (isNative (asset (params_underlying params)) \<longrightarrow>
      calculateStartingBalance (Option_new b s params None) = 0.5 * 4 + 0.0000001 * 1000 * 3)"
  by (simp add: calculateStartingBalance_def Let_def Option_new_def spread_def
      networkDefaults_def)

theorem starting_balance_formula_witness:
  "isNative (asset (params_underlying native_params)) \<and>
   calculateStartingBalance native_option = 0.5 * 4 + 0.0000001 * 1000 * 3"
proof -
  have n: "isNative (asset (params_underlying native_params))"
    by (simp add: native_params_def)
  with starting_balance_formula [of native_option native_params "''GBUYER''" "''GSELLER''"]
  have "calculateStartingBalance (Option_new ''GBUYER'' ''GSELLER'' native_params None) =
          0.5 * 4 + 0.0000001 * 1000 * 3"
    by blast
  with n show ?thesis by (simp only: native_option_def simp_thms)
qed

text \<open>
  Claim C6, amended. For every input with a negative amount, and for every input on
  which the account query or the ledger query fails (or the ledger query returns no
  record), \<^verbatim>\<open>createTransactions\<close> aborts with an error and returns no transactions; for
  every input it either fails or returns all three transactions complete: each with its
  source account, its time bounds and the operations the specification lists, setup
  signed by the escrow key. The code checks no amount itself: it hands each amount
  unchanged to the payment constructor of the SDK, whose refusal of a negative amount is
  the hypothesis.
\<close>

theorem construction_all_or_nothing:
  assumes "\<And>from to a v. v < 0 \<Longrightarrow>
             \<not> sdk_accepts world (Payment from to a (NumberToString v))"
  shows "(amount (underlying opt) < 0 \<or> amount (premium opt) < 0 \<or>
          amount (exercise opt) < 0 \<or> loadAccount server (seller opt) = None \<or>
          ledgers_call server = None \<or> ledgers_call server = Some [] \<longrightarrow>
            isl (createTransactions world server opt)) \<and>
         (\<not> isl (createTransactions world server opt) \<longrightarrow>
            loadAccount server (seller opt) =
              Some (tx_source (tx_setup (projr (createTransactions world server opt)))) \<and>
            tx_signatures (tx_setup (projr (createTransactions world server opt))) =
              [Keypair_random world] \<and>
            tx_timebounds (tx_setup (projr (createTransactions world server opt))) \<noteq> None \<and>
            tx_operations (tx_setup (projr (createTransactions world server opt))) =
              setupOperations world opt
                (sequenceNumber
                   (tx_source (tx_exercise (projr (createTransactions world server opt)))))
                (tx_exercise (projr (createTransactions world server opt)))
                (tx_refund (projr (createTransactions world server opt))) \<and>
            accountId (tx_source (tx_exercise (projr (createTransactions world server opt)))) =
              Keypair_random world \<and>
            tx_timebounds (tx_exercise (projr (createTransactions world server opt))) \<noteq> None \<and>
            tx_operations (tx_exercise (projr (createTransactions world server opt))) =
              exerciseOperations opt (Keypair_random world) \<and>
            tx_source (tx_refund (projr (createTransactions world server opt))) =
              tx_source (tx_exercise (projr (createTransactions world server opt))) \<and>
            tx_timebounds (tx_refund (projr (createTransactions world server opt))) \<noteq> None \<and>
            tx_operations (tx_refund (projr (createTransactions world server opt))) =
              refundOperations opt (Keypair_random world))"
proof (cases "createTransactions world server opt")
  case (Inl e)
  then show ?thesis by simp
next
  case (Inr txs)
  from createTransactions_Inr [OF Inr] obtain account s where
    a: "loadAccount server (seller opt) = Some account" and
    s: "calculateEscrowSequenceNumber server opt = Inr s" and
    e: "buildExerciseTransaction world opt (Keypair_random world) s = Inr (tx_exercise txs)" and
    r: "buildRefundTransaction world opt (Keypair_random world) s = Inr (tx_refund txs)" and
    src: "tx_source (tx_setup txs) = account" and
    sig: "tx_signatures (tx_setup txs) = [Keypair_random world]" and
    tb: "tx_timebounds (tx_setup txs) \<noteq> None" and
    o: "tx_operations (tx_setup txs) =
          setupOperations world opt s (tx_exercise txs) (tx_refund txs)" and
    pu: "sdk_accepts world (Payment (seller opt) (Keypair_random world)
           (asset (underlying opt)) (NumberToString (amount (underlying opt))))" and
    pp: "sdk_accepts world (Payment (buyer opt) (seller opt) (asset (premium opt))
           (NumberToString (amount (premium opt))))"
    by blast
  note pe = buildExerciseTransaction_Inr(4) [OF e]
  from pu assms have u: "\<not> amount (underlying opt) < 0" by blast
  from pp assms have p: "\<not> amount (premium opt) < 0" by blast
  from pe assms have x: "\<not> amount (exercise opt) < 0" by blast
  from calculateEscrowSequenceNumber_Inr [OF s] have l: "ledgers_call server \<noteq> None"
    "ledgers_call server \<noteq> Some []"
    by auto
  from buildRefundTransaction_Inr(3) [OF r]
  have rtb: "tx_timebounds (tx_refund txs) \<noteq> None" by auto
  show ?thesis
    using a u p x l rtb src sig tb o
    by (simp add: Inr buildExerciseTransaction_Inr(1,2,3) [OF e]
        buildRefundTransaction_Inr(1,2) [OF r])
qed

theorem construction_all_or_nothing_witness:
  "isl (createTransactions example_world offline_server example_option) \<and>
   amount (premium negative_premium_option) < 0 \<and>
   isl (createTransactions example_world example_server negative_premium_option) \<and>
   \<not> isl (createTransactions example_world example_server example_option) \<and>
   tx_operations (tx_refund (projr (createTransactions example_world example_server
     example_option))) =
     [Payment ''GESCROW'' ''GSELLER'' (Credit ''TEST'' ''GISSUER'') (NumberToString 1),
      ChangeTrust ''GESCROW'' (Credit ''TEST'' ''GISSUER'') (Literal ''0''),
      AccountMerge ''GESCROW'' ''GSELLER'']"
proof -
  have neg: "\<not> sdk_accepts example_world (Payment src dst a (NumberToString v))"
    if "v < 0" for src dst a v
    using that by (simp add: example_world_fields)
  have ok: "\<not> isl (createTransactions example_world example_server example_option)"
    using example_succeeds
    by (cases "createTransactions example_world example_server example_option") simp_all
  from construction_all_or_nothing [OF neg, of example_option offline_server]
    construction_all_or_nothing [OF neg, of negative_premium_option example_server]
    construction_all_or_nothing [OF neg, of example_option example_server] ok
  show ?thesis
    by (simp add: offline_server_def negative_premium_option_fields refundOperations_def
        example_option_fields example_world_fields)
qed

text \<open>
  Claim C6 as stated fails for \<^verbatim>\<open>delay < 0\<close>: nothing in the code checks
  \<^verbatim>\<open>delay\<close>, and with \<^verbatim>\<open>expiry = 1300\<close>, \<^verbatim>\<open>delay = -10\<close> and both queries answered
  the construction does not abort.
\<close>

theorem negative_delay_counterexample:
  "delay negative_delay_option < 0 \<and>
   \<not> isl (createTransactions example_world example_server negative_delay_option)"
  by (simp add: negative_delay_succeeds negative_delay_option_fields)

text \<open>
  Claim C7. For a non-native underlying asset the exercise and the refund transaction
  each hold one change-trust operation, on the escrow account for that asset with limit
  \<^verbatim>\<open>'0'\<close>; for the native asset neither holds a change-trust operation.
\<close>

theorem trust_removal_iff_non_native:
  assumes "createTransactions world server opt = Inr txs"
  shows "filter isChangeTrust (tx_operations (tx_exercise txs)) =
           (if isNative (asset (underlying opt)) then []
            else [ChangeTrust (Keypair_random world) (asset (underlying opt)) (Literal ''0'')]) \<and>
         filter isChangeTrust (tx_operations (tx_refund txs)) =
           (if isNative (asset (underlying opt)) then []
            else [ChangeTrust (Keypair_random world) (asset (underlying opt)) (Literal ''0'')])"
proof -
  from createTransactions_Inr [OF assms] obtain s where
    e: "buildExerciseTransaction world opt (Keypair_random world) s = Inr (tx_exercise txs)" and
    r: "buildRefundTransaction world opt (Keypair_random world) s = Inr (tx_refund txs)"
    by blast
  show ?thesis
    by (simp add: buildExerciseTransaction_Inr(1) [OF e] buildRefundTransaction_Inr(1) [OF r]
        exerciseOperations_def refundOperations_def)
qed

theorem trust_removal_iff_non_native_witness:
  "filter isChangeTrust (tx_operations (tx_exercise (projr (createTransactions example_world
      example_server example_option)))) =
     [ChangeTrust ''GESCROW'' (Credit ''TEST'' ''GISSUER'') (Literal ''0'')] \<and>
   filter isChangeTrust (tx_operations (tx_refund (projr (createTransactions example_world
      example_server example_option)))) =
     [ChangeTrust ''GESCROW'' (Credit ''TEST'' ''GISSUER'') (Literal ''0'')] \<and>
   filter isChangeTrust (tx_operations (tx_exercise (projr (createTransactions later_world
      example_server native_option)))) = [] \<and>
   filter isChangeTrust (tx_operations (tx_refund (projr (createTransactions later_world
      example_server native_option)))) = []"
  using trust_removal_iff_non_native [OF example_succeeds]
    trust_removal_iff_non_native [OF native_succeeds]
  by (simp add: example_option_fields native_option_fields example_world_fields)

text \<open>
  Claim C8. For a ledger index \<open>L\<close> from 0 to \<open>2 ^ 32\<close>,
  \<^verbatim>\<open>ledgerToSequenceNumber\<close> returns the decimal numeral of \<open>L * 4294967296\<close>: digits
  only, no leading zero unless the value is 0, and of exactly that value, also beyond
  \<open>2 ^ 53\<close>.
\<close>

theorem ledgerToSequenceNumber_exact:
  assumes "0 \<le> L" and "L \<le> 2 ^ 32"
  shows "ledgerToSequenceNumber L = decimal (nat (L * 4294967296)) \<and>
         list_all is_digit (ledgerToSequenceNumber L) \<and>
         (hd (ledgerToSequenceNumber L) = CHR ''0'' \<longrightarrow> L = 0) \<and>
         string_value (ledgerToSequenceNumber L) = L * 4294967296"
proof -
  have d: "ledgerToSequenceNumber L = decimal (nat (L * 4294967296))"
    using assms(1)
    by (simp add: ledgerToSequenceNumber_def BigNumber_toString_def multipliedBy_def
        BigNumber_new_def)
  have z: "hd (ledgerToSequenceNumber L) = CHR ''0'' \<longrightarrow> L = 0"
  proof
    assume "hd (ledgerToSequenceNumber L) = CHR ''0''"
    then have "nat (L * 4294967296) = 0" unfolding d by (rule hd_decimal_zero)
    with assms(1) show "L = 0" by simp
  qed
  have g: "list_all is_digit (ledgerToSequenceNumber L)"
    unfolding d by (rule decimal_digits)
  have v: "string_value (ledgerToSequenceNumber L) = L * 4294967296"
    by (rule string_value_ledgerToSequenceNumber)
  from d g z v show ?thesis by blast
qed

theorem ledgerToSequenceNumber_exact_witness:
  "(0::int) \<le> 4294967296 \<and> (4294967296::int) \<le> 2 ^ 32 \<and>
   ledgerToSequenceNumber 4294967296 = ''18446744073709551616'' \<and>
   string_value ''18446744073709551616'' = 4294967296 * 4294967296 \<and>
   (2::int) ^ 53 < string_value ''18446744073709551616''"
proof -
  have "(0::int) \<le> 4294967296" and "(4294967296::int) \<le> 2 ^ 32"
    by simp_all
  from ledgerToSequenceNumber_exact [OF this]
  have "string_value (ledgerToSequenceNumber 4294967296) = 4294967296 * 4294967296"
    by blast
  then show ?thesis by (simp add: ledgerToSequenceNumber_max)
qed

text \<open>
  Claim C9. The estimator reads the latest ledger only: for the same answer of the ledger
  query, the same expiry and the same timeout it returns the same result, whatever the
  clock, the key pair and the other parameters of the build are.
\<close>

theorem estimator_deterministic:
  assumes "ledgers_call server1 = ledgers_call server2"
    and "expiry opt1 = expiry opt2"
    and "timeout (networkOptions opt1) = timeout (networkOptions opt2)"
  shows "calculateEscrowSequenceNumber server1 opt1 =
           calculateEscrowSequenceNumber server2 opt2 \<and>
         (createTransactions world1 server1 opt1 = Inr txs1 \<longrightarrow>
          createTransactions world2 server2 opt2 = Inr txs2 \<longrightarrow>
            sequenceNumber (tx_source (tx_exercise txs1)) =
            sequenceNumber (tx_source (tx_exercise txs2)))"
proof -
  have c: "calculateEscrowSequenceNumber server1 opt1 =
           calculateEscrowSequenceNumber server2 opt2"
    using assms
    by (simp add: calculateEscrowSequenceNumber_def Let_def split: option.splits list.splits)
  have "sequenceNumber (tx_source (tx_exercise txs1)) =
        sequenceNumber (tx_source (tx_exercise txs2))"
    if t1: "createTransactions world1 server1 opt1 = Inr txs1"
      and t2: "createTransactions world2 server2 opt2 = Inr txs2"
  proof -
    from createTransactions_Inr [OF t1] obtain s1 where
      s1: "calculateEscrowSequenceNumber server1 opt1 = Inr s1" and
      e1: "buildExerciseTransaction world1 opt1 (Keypair_random world1) s1 =
             Inr (tx_exercise txs1)"
      by blast
    from createTransactions_Inr [OF t2] obtain s2 where
      s2: "calculateEscrowSequenceNumber server2 opt2 = Inr s2" and
      e2: "buildExerciseTransaction world2 opt2 (Keypair_random world2) s2 =
             Inr (tx_exercise txs2)"
      by blast
    from c s1 s2 have "s1 = s2" by simp
    then show ?thesis
      by (simp add: buildExerciseTransaction_Inr(2) [OF e1]
          buildExerciseTransaction_Inr(2) [OF e2])
  qed
  with c show ?thesis by blast
qed

theorem estimator_deterministic_witness:
  "Date_now example_world \<noteq> Date_now later_world \<and>
   Keypair_random example_world \<noteq> Keypair_random later_world \<and>
   sequenceNumber (tx_source (tx_exercise (projr (createTransactions example_world
      example_server example_option)))) =
   sequenceNumber (tx_source (tx_exercise (projr (createTransactions later_world
      example_server native_option))))"
proof -
  have "expiry example_option = expiry native_option"
    and "timeout (networkOptions example_option) = timeout (networkOptions native_option)"
    by (simp_all add: example_option_fields native_option_fields)
  from estimator_deterministic [OF refl this, of example_server example_world
      "projr (createTransactions example_world example_server example_option)" later_world
      "projr (createTransactions later_world example_server native_option)"]
    example_succeeds native_succeeds
  show ?thesis by (simp add: example_world_fields later_world_fields)
qed

text \<open>
  Claim C10. For a non-native underlying asset, setup holds one change-trust operation,
  on the escrow account, whose limit is the underlying amount; for the native asset it
  holds none.
\<close>

theorem setup_trustline_limit:
  assumes "createTransactions world server opt = Inr txs"
  shows "filter isChangeTrust (tx_operations (tx_setup txs)) =
           (if isNative (asset (underlying opt)) then []
            else [ChangeTrust (Keypair_random world) (asset (underlying opt))
                    (NumberToString (amount (underlying opt)))])"
proof -
  from createTransactions_Inr [OF assms] obtain s where
    o: "tx_operations (tx_setup txs) =
          setupOperations world opt s (tx_exercise txs) (tx_refund txs)"
    by blast
  show ?thesis by (simp add: o setupOperations_def)
qed

theorem setup_trustline_limit_witness:
  "filter isChangeTrust (tx_operations (tx_setup (projr (createTransactions example_world
      example_server example_option)))) =
     [ChangeTrust ''GESCROW'' (Credit ''TEST'' ''GISSUER'') (NumberToString 1)] \<and>
   filter isChangeTrust (tx_operations (tx_setup (projr (createTransactions later_world
      example_server native_option)))) = []"
  using setup_trustline_limit [OF example_succeeds] setup_trustline_limit [OF native_succeeds]
  by (simp add: example_option_fields native_option_fields example_world_fields)

end
